theory Spec2Isabelle
  imports Main "HOL-Library.Word" "HOL-Library.Finite_Map"
begin

unbundle bit_operations_syntax

section \<open>The inode table of fuse-cpp-ramfs (src/fuse_cpp_ramfs.cpp)\<close>

text \<open>
  The callbacks of \<^verbatim>\<open>FuseRamFs\<close> are embedded as functions from the file system state to
  an outcome: the replies sent through the request handle, in order, and the new state, or
  the replies sent before an access that C++ leaves undefined (a vector index past the
  end, a call through a null pointer).

  Machine integers are words: \<^verbatim>\<open>fuse_ino_t\<close>, \<^verbatim>\<open>nlink_t\<close>, \<^verbatim>\<open>size_t\<close> and the
  \<^verbatim>\<open>statvfs\<close> counters are 64 bits wide, \<^verbatim>\<open>mode_t\<close>, \<^verbatim>\<open>uid_t\<close> and \<^verbatim>\<open>gid_t\<close>
  32 bits (Linux, x86-64). Time stamps and the \<^verbatim>\<open>cout\<close> log are left out.
\<close>

subsection \<open>Types\<close>

type_synonym fuse_ino_t = "64 word"
type_synonym mode_t = "32 word"
type_synonym nlink_t = "64 word"
type_synonym uid_t = "32 word"
type_synonym gid_t = "32 word"

text \<open>The sentinel of a failed directory lookup: \<^verbatim>\<open>(fuse_ino_t) -1\<close>, which the callbacks
  also write as \<^verbatim>\<open>ino == -1\<close>.\<close>

definition INO_NOTFOUND :: fuse_ino_t where
  "INO_NOTFOUND = - 1"

text \<open>File type bits of \<^verbatim>\<open>sys/stat.h\<close>: \<^verbatim>\<open>S_IFMT = 0170000\<close>, \<^verbatim>\<open>S_IFDIR = 0040000\<close>,
  \<^verbatim>\<open>S_IFREG = 0100000\<close>, \<^verbatim>\<open>S_IFLNK = 0120000\<close>.\<close>

definition S_IFMT :: mode_t where "S_IFMT = 0xF000"
definition S_IFDIR :: mode_t where "S_IFDIR = 0x4000"
definition S_IFREG :: mode_t where "S_IFREG = 0x8000"
definition S_IFLNK :: mode_t where "S_IFLNK = 0xA000"

definition S_ISDIR :: "mode_t \<Rightarrow> bool" where
  "S_ISDIR m = (m AND S_IFMT = S_IFDIR)"

definition S_ISREG :: "mode_t \<Rightarrow> bool" where
  "S_ISREG m = (m AND S_IFMT = S_IFREG)"

text \<open>The variants of \<^verbatim>\<open>Inode\<close>. A directory holds its \<^verbatim>\<open>map<string, fuse_ino_t>\<close> of
  children (the type that \<^verbatim>\<open>FuseReadDir\<close> iterates over).\<close>

datatype node =
    File "8 word list"
  | Directory "(string, fuse_ino_t) fmap"
  | SymLink string
  | SpecialInode

record inode =
  st_ino :: fuse_ino_t
  st_mode :: mode_t
  st_nlink :: nlink_t
  st_uid :: uid_t
  st_gid :: gid_t
  st_size :: "64 word"
  m_nlookup :: "64 word"
  body :: node

record statvfs =
  f_bsize :: "64 word"
  f_frsize :: "64 word"
  f_blocks :: "64 word"
  f_bfree :: "64 word"
  f_bavail :: "64 word"
  f_files :: "64 word"
  f_ffree :: "64 word"
  f_favail :: "64 word"
  f_fsid :: "64 word"
  f_flag :: "64 word"
  f_namemax :: "64 word"

text \<open>The static members of \<^verbatim>\<open>FuseRamFs\<close>. A slot of \<^verbatim>\<open>Inodes\<close> holds an inode or
  \<^verbatim>\<open>nullptr\<close> (\<open>None\<close>). \<^verbatim>\<open>DeletedInodes\<close> is a queue: its front is the head of the list,
  \<^verbatim>\<open>push\<close> appends.\<close>

record FuseRamFs =
  Inodes :: "inode option list"
  DeletedInodes :: "fuse_ino_t list"
  m_reclaimingInodes :: bool
  m_stbuf :: statvfs

text \<open>The credentials \<^verbatim>\<open>fuse_req_ctx(req)\<close> gives.\<close>

record fuse_ctx =
  uid :: uid_t
  gid :: gid_t

datatype errno =
    ESUCCESS | ENOENT | ENOTDIR | EISDIR | EEXIST | ENOTEMPTY | EINVAL | ENOMEM

text \<open>What a callback sends through the request handle.\<close>

datatype reply =
    reply_err errno
  | reply_none
  | reply_entry inode
  | reply_create inode
  | reply_attr inode
  | reply_open
  | reply_readlink string
  | reply_statfs statvfs
  | reply_other

text \<open>Behaviour that C++ leaves undefined.\<close>

datatype fault =
    OutOfBounds nat
  | NullDeref

datatype outcome =
    Done (replies: "reply list") (state: FuseRamFs)
  | Fault (replies: "reply list") (fault: fault)

subsection \<open>Methods of the inode classes\<close>

text \<open>Modelled from the spec: the methods of \<^verbatim>\<open>Inode\<close> (inode.hpp, inode.cpp are not
  among the sources). The hard-link count is the \<^verbatim>\<open>nlink\<close> attribute; it is raised and
  lowered by one, and an inode has no links when it is zero.\<close>

definition HasNoLinks :: "inode \<Rightarrow> bool" where
  "HasNoLinks i = (st_nlink i = 0)"

definition AddHardLink :: "inode \<Rightarrow> inode" where
  "AddHardLink i = i\<lparr>st_nlink := st_nlink i + 1\<rparr>"

definition RemoveHardLink :: "inode \<Rightarrow> inode" where
  "RemoveHardLink i = i\<lparr>st_nlink := st_nlink i - 1\<rparr>"

text \<open>Modelled from the spec: \<^verbatim>\<open>Inode::Forget\<close> and \<^verbatim>\<open>Inode::Forgotten\<close>. The lookup
  count is an unsigned 64-bit counter that \<^verbatim>\<open>forget(n)\<close> lowers by exactly \<open>n\<close>; the
  callback sends no reply other than the empty one.\<close>

definition Forget :: "inode \<Rightarrow> 64 word \<Rightarrow> inode" where
  "Forget i n = i\<lparr>m_nlookup := m_nlookup i - n\<rparr>"

definition Forgotten :: "inode \<Rightarrow> bool" where
  "Forgotten i = (m_nlookup i = 0)"

text \<open>Modelled from the spec: \<^verbatim>\<open>Inode::ReplyEntry\<close> and \<^verbatim>\<open>Inode::ReplyCreate\<close>. The lookup
  count is incremented whenever an entry reply that references the inode is sent
  (lookup, mknod, mkdir, symlink, link, create).\<close>

definition ReplyEntry :: "inode \<Rightarrow> inode" where
  "ReplyEntry i = i\<lparr>m_nlookup := m_nlookup i + 1\<rparr>"

definition ReplyCreate :: "inode \<Rightarrow> inode" where
  "ReplyCreate i = i\<lparr>m_nlookup := m_nlookup i + 1\<rparr>"

text \<open>Modelled from the spec: \<^verbatim>\<open>Inode::BufBlockSize\<close> and the \<^verbatim>\<open>UsedBlocks\<close> of each
  variant (a virtual method; inode.hpp, file.hpp are not among the sources). The block size
  is 4 KiB. \<^verbatim>\<open>UsedBlocks\<close> is computed from the variant: a file is a sequence of blocks that
  hold its bytes, \<open>ceil(size / blocksize)\<close> of them, \<open>size\<close> being the number of bytes the
  file object holds. The spec gives no figure for the other variants, which have no block
  sequence: they use none.\<close>

definition BufBlockSize :: "64 word" where
  "BufBlockSize = 4096"

definition UsedBlocks :: "inode \<Rightarrow> 64 word" where
  "UsedBlocks i =
     (case body i of
        File bytes \<Rightarrow> word_of_nat ((length bytes + unat BufBlockSize - 1) div unat BufBlockSize)
      | _ \<Rightarrow> 0)"

text \<open>Modelled from the spec: \<^verbatim>\<open>Inode::Initialize\<close>. The inode is initialised with the
  given mode, link count and owner, a zero lookup count and a zero size, except for a
  symlink, whose size is the length of its target.\<close>

definition Initialize ::
  "node \<Rightarrow> fuse_ino_t \<Rightarrow> mode_t \<Rightarrow> nlink_t \<Rightarrow> gid_t \<Rightarrow> uid_t \<Rightarrow> inode" where
  "Initialize n ino mode nlink gid' uid' =
     \<lparr>st_ino = ino, st_mode = mode, st_nlink = nlink, st_uid = uid', st_gid = gid',
      st_size = (case n of SymLink l \<Rightarrow> word_of_nat (length l) | _ \<Rightarrow> 0),
      m_nlookup = 0, body = n\<rparr>"

text \<open>Modelled from the spec: the methods of \<^verbatim>\<open>Directory\<close> (directory.hpp, directory.cpp
  are not among the sources). \<^verbatim>\<open>ChildInodeNumberWithName\<close> is a map lookup that yields the
  sentinel for an absent name; \<^verbatim>\<open>AddChild\<close> inserts a binding; \<^verbatim>\<open>UpdateChild\<close> rebinds an
  existing name or inserts; \<^verbatim>\<open>RemoveChild\<close> removes the name, the link counts being the
  caller's business.\<close>

definition ChildInodeNumberWithName :: "(string, fuse_ino_t) fmap \<Rightarrow> string \<Rightarrow> fuse_ino_t" where
  "ChildInodeNumberWithName ch name =
     (case fmlookup ch name of None \<Rightarrow> INO_NOTFOUND | Some ino \<Rightarrow> ino)"

definition AddChild :: "string \<Rightarrow> fuse_ino_t \<Rightarrow> inode \<Rightarrow> inode" where
  "AddChild name ino d =
     (case body d of Directory ch \<Rightarrow> d\<lparr>body := Directory (fmupd name ino ch)\<rparr> | _ \<Rightarrow> d)"

definition UpdateChild :: "string \<Rightarrow> fuse_ino_t \<Rightarrow> inode \<Rightarrow> inode" where
  "UpdateChild name ino d =
     (case body d of Directory ch \<Rightarrow> d\<lparr>body := Directory (fmupd name ino ch)\<rparr> | _ \<Rightarrow> d)"

definition RemoveChild :: "string \<Rightarrow> inode \<Rightarrow> inode" where
  "RemoveChild name d =
     (case body d of Directory ch \<Rightarrow> d\<lparr>body := Directory (fmdrop name ch)\<rparr> | _ \<Rightarrow> d)"

text \<open>\<^verbatim>\<open>dynamic_cast<Directory *>(p)\<close>: the children of a directory, nothing for any other
  variant and for the null pointer.\<close>

definition as_Directory :: "inode option \<Rightarrow> (string, fuse_ino_t) fmap option" where
  "as_Directory p =
     (case p of
        None \<Rightarrow> None
      | Some i \<Rightarrow> (case body i of Directory ch \<Rightarrow> Some ch | _ \<Rightarrow> None))"

definition is_File :: "inode \<Rightarrow> bool" where
  "is_File i = (case body i of File _ \<Rightarrow> True | _ \<Rightarrow> False)"

definition is_Directory :: "inode \<Rightarrow> bool" where
  "is_Directory i = (case body i of Directory _ \<Rightarrow> True | _ \<Rightarrow> False)"

subsection \<open>Counters\<close>

text \<open>Modelled from the spec: \<^verbatim>\<open>FuseRamFs::UpdateUsedBlocks\<close> and
  \<^verbatim>\<open>FuseRamFs::UpdateUsedInodes\<close> (fuse_cpp_ramfs.hpp is not among the sources). The
  file system keeps free counters only; \<open>n\<close> more used blocks (inodes) are \<open>n\<close> fewer free
  ones, for root and for everybody else.\<close>

definition UpdateUsedBlocks :: "64 word \<Rightarrow> FuseRamFs \<Rightarrow> FuseRamFs" where
  "UpdateUsedBlocks n fs =
     fs\<lparr>m_stbuf := (m_stbuf fs)\<lparr>f_bfree := f_bfree (m_stbuf fs) - n,
                                 f_bavail := f_bavail (m_stbuf fs) - n\<rparr>\<rparr>"

definition UpdateUsedInodes :: "64 word \<Rightarrow> FuseRamFs \<Rightarrow> FuseRamFs" where
  "UpdateUsedInodes n fs =
     fs\<lparr>m_stbuf := (m_stbuf fs)\<lparr>f_ffree := f_ffree (m_stbuf fs) - n,
                                 f_favail := f_favail (m_stbuf fs) - n\<rparr>\<rparr>"

subsection \<open>Access to the table\<close>

text \<open>A method call through \<^verbatim>\<open>Inodes[ino]\<close> that changes the object in place.\<close>

definition modify :: "fuse_ino_t \<Rightarrow> (inode \<Rightarrow> inode) \<Rightarrow> FuseRamFs \<Rightarrow> FuseRamFs" where
  "modify ino f fs =
     fs\<lparr>Inodes := (Inodes fs)[unat ino := map_option f (Inodes fs ! unat ino)]\<rparr>"

definition in_table :: "FuseRamFs \<Rightarrow> fuse_ino_t \<Rightarrow> bool" where
  "in_table fs ino = (unat ino < length (Inodes fs))"

definition slot :: "FuseRamFs \<Rightarrow> fuse_ino_t \<Rightarrow> inode option" where
  "slot fs ino = Inodes fs ! unat ino"

text \<open>The test \<^verbatim>\<open>inode == nullptr || inode->HasNoLinks()\<close>.\<close>

definition deleted :: "inode option \<Rightarrow> bool" where
  "deleted p = (case p of None \<Rightarrow> True | Some i \<Rightarrow> HasNoLinks i)"

subsection \<open>Registration\<close>

text \<open>\<^verbatim>\<open>RegisterInode\<close>, lines 1271 to 1289. Writing \<^verbatim>\<open>Inodes[ino]\<close> for a queued number
  past the end of the table is undefined.\<close>

definition RegisterInode ::
  "node \<Rightarrow> mode_t \<Rightarrow> nlink_t \<Rightarrow> gid_t \<Rightarrow> uid_t \<Rightarrow> FuseRamFs \<Rightarrow> fault + (fuse_ino_t \<times> FuseRamFs)" where
  "RegisterInode n mode nlink gid' uid' fs =
     (case DeletedInodes fs of
        [] \<Rightarrow>
          (let ino = word_of_nat (length (Inodes fs) + 1) - 1;
               inode_p = Initialize n ino mode nlink gid' uid';
               fs1 = fs\<lparr>Inodes := Inodes fs @ [Some inode_p]\<rparr>;
               fs2 = UpdateUsedInodes 1 fs1
           in Inr (ino, UpdateUsedBlocks (UsedBlocks inode_p) fs2))
      | q # qs \<Rightarrow>
          (if unat q < length (Inodes fs) then
             (let inode_p = Initialize n q mode nlink gid' uid';
                  fs1 = fs\<lparr>DeletedInodes := qs, Inodes := (Inodes fs)[unat q := Some inode_p]\<rparr>
              in Inr (q, UpdateUsedBlocks (UsedBlocks inode_p) fs1))
           else Inl (OutOfBounds (unat q))))"

text \<open>A callback keeps its pointer to the parent directory across \<^verbatim>\<open>RegisterInode\<close>. Should
  the number handed out be the parent's own (its slot was queued although not null), the
  table holds the new object from then on, and what the callback does to the old one does
  not reach the table.\<close>

definition modify_held ::
  "fuse_ino_t \<Rightarrow> fuse_ino_t \<Rightarrow> (inode \<Rightarrow> inode) \<Rightarrow> FuseRamFs \<Rightarrow> FuseRamFs" where
  "modify_held parent ino f fs = (if ino = parent then fs else modify parent f fs)"

subsection \<open>Construction and init\<close>

text \<open>The static initialisers and the constructor. \<^verbatim>\<open>kTotalBlocks\<close>, \<^verbatim>\<open>kTotalInodes\<close>,
  \<^verbatim>\<open>kFilesystemId\<close> and \<^verbatim>\<open>kMaxFilenameLength\<close> are declared in fuse_cpp_ramfs.hpp, which
  is not among the sources: they are parameters.\<close>

definition FuseRamFs_new :: "64 word \<Rightarrow> 64 word \<Rightarrow> 64 word \<Rightarrow> 64 word \<Rightarrow> FuseRamFs" where
  "FuseRamFs_new kTotalBlocks kTotalInodes kFilesystemId kMaxFilenameLength =
     \<lparr>Inodes = [], DeletedInodes = [], m_reclaimingInodes = False,
      m_stbuf = \<lparr>f_bsize = BufBlockSize, f_frsize = BufBlockSize,
                 f_blocks = kTotalBlocks, f_bfree = kTotalBlocks, f_bavail = kTotalBlocks,
                 f_files = kTotalInodes, f_ffree = kTotalInodes, f_favail = kTotalInodes,
                 f_fsid = kFilesystemId, f_flag = 0, f_namemax = kMaxFilenameLength\<rparr>\<rparr>"

text \<open>\<^verbatim>\<open>FuseInit\<close>, lines 129 to 159; \<open>gid'\<close> and \<open>uid'\<close> are \<^verbatim>\<open>getgid()\<close> and
  \<^verbatim>\<open>getuid()\<close>.\<close>

definition FuseInit :: "gid_t \<Rightarrow> uid_t \<Rightarrow> FuseRamFs \<Rightarrow> fault + FuseRamFs" where
  "FuseInit gid' uid' fs =
     (let st = m_stbuf fs;
          fs0 = fs\<lparr>m_reclaimingInodes := False,
                   m_stbuf := st\<lparr>f_bfree := f_blocks st, f_bavail := f_blocks st,
                                 f_ffree := f_files st, f_favail := f_files st, f_flag := 0\<rparr>\<rparr>
      in case RegisterInode SpecialInode 0 0 gid' uid' fs0 of
           Inl e \<Rightarrow> Inl e
         | Inr (_, fs1) \<Rightarrow>
             (case RegisterInode (Directory fmempty) (S_IFDIR OR 0x1FF) 3 gid' uid' fs1 of
                Inl e \<Rightarrow> Inl e
              | Inr (rootno, fs2) \<Rightarrow>
                  Inr (modify rootno (AddChild ''..'' rootno)
                        (modify rootno (AddChild ''.'' rootno) fs2))))"

subsection \<open>Callbacks on one inode\<close>

text \<open>\<^verbatim>\<open>FuseLookup\<close>, lines 184 to 214. The parent is not tested for deletion; the child
  is.\<close>

definition FuseLookup :: "FuseRamFs \<Rightarrow> fuse_ino_t \<Rightarrow> string \<Rightarrow> outcome" where
  "FuseLookup fs parent name =
     (if \<not> in_table fs parent then Done [reply_err ENOENT] fs
      else case as_Directory (slot fs parent) of
        None \<Rightarrow> Done [reply_err ENOTDIR] fs
      | Some ch \<Rightarrow>
          (let ino = ChildInodeNumberWithName ch name in
           if ino = INO_NOTFOUND then Done [reply_err ENOENT] fs
           else if \<not> in_table fs ino then Fault [] (OutOfBounds (unat ino))
           else if deleted (slot fs ino) then Done [reply_err ENOENT] fs
           else (let fs' = modify ino ReplyEntry fs
                 in Done [reply_entry (the (slot fs' ino))] fs')))"

text \<open>\<^verbatim>\<open>FuseGetAttr\<close>, lines 224 to 240. The branch for a number past the end of the table
  replies and does not return: the table is indexed next. \<^verbatim>\<open>Inode::ReplyAttr\<close> (inode.cpp,
  not among the sources) is taken to send the attributes of the inode and change
  nothing.\<close>

definition FuseGetAttr :: "FuseRamFs \<Rightarrow> fuse_ino_t \<Rightarrow> outcome" where
  "FuseGetAttr fs ino =
     (let rs = (if \<not> in_table fs ino then [reply_err ENOENT] else []) in
      if \<not> in_table fs ino then Fault rs (OutOfBounds (unat ino))
      else if deleted (slot fs ino) then Done (rs @ [reply_err ENOENT]) fs
      else Done (rs @ [reply_attr (the (slot fs ino))]) fs)"

text \<open>The methods of the inode classes that reply for themselves and that the spec does not
  pin down (\<^verbatim>\<open>ReplySetAttr\<close>, \<^verbatim>\<open>ReadAndReply\<close>, \<^verbatim>\<open>WriteAndReply\<close>, the four
  \<^verbatim>\<open>XAttr\<close> methods, \<^verbatim>\<open>ReplyAccess\<close>) are parameters of the callbacks that call them: a
  function from the inode number and the state to the outcome, with the other arguments
  of the call already applied.\<close>

type_synonym inode_call = "fuse_ino_t \<Rightarrow> FuseRamFs \<Rightarrow> outcome"

text \<open>What follows in a callback after replies \<open>rs\<close> were sent.\<close>

fun after :: "reply list \<Rightarrow> outcome \<Rightarrow> outcome" where
  "after rs (Done rs' fs) = Done (rs @ rs') fs"
| "after rs (Fault rs' e) = Fault (rs @ rs') e"

text \<open>\<^verbatim>\<open>FuseSetAttr\<close>, lines 252 to 268, with the same branch that does not return.\<close>

definition FuseSetAttr :: "inode_call \<Rightarrow> FuseRamFs \<Rightarrow> fuse_ino_t \<Rightarrow> outcome" where
  "FuseSetAttr ReplySetAttr fs ino =
     (let rs = (if \<not> in_table fs ino then [reply_err ENOENT] else []) in
      if \<not> in_table fs ino then Fault rs (OutOfBounds (unat ino))
      else if deleted (slot fs ino) then Done (rs @ [reply_err ENOENT]) fs
      else after rs (ReplySetAttr ino fs))"

text \<open>\<^verbatim>\<open>FuseOpenDir\<close>, lines 277 to 303, and \<^verbatim>\<open>FuseReleaseDir\<close>, lines 313 to 339.\<close>

definition FuseOpenDir :: "FuseRamFs \<Rightarrow> fuse_ino_t \<Rightarrow> outcome" where
  "FuseOpenDir fs ino =
     (if \<not> in_table fs ino then Done [reply_err ENOENT] fs
      else if deleted (slot fs ino) then Done [reply_err ENOENT] fs
      else if is_File (the (slot fs ino)) then Done [reply_err ENOTDIR] fs
      else Done [reply_open] fs)"

definition FuseReleaseDir :: "FuseRamFs \<Rightarrow> fuse_ino_t \<Rightarrow> outcome" where
  "FuseReleaseDir fs ino =
     (if \<not> in_table fs ino then Done [reply_err ENOENT] fs
      else if deleted (slot fs ino) then Done [reply_err ENOENT] fs
      else if is_File (the (slot fs ino)) then Done [reply_err ENOTDIR] fs
      else Done [reply_err ESUCCESS] fs)"

text \<open>\<^verbatim>\<open>FuseReadDir\<close>, lines 351 to 465, up to the test that the inode is a directory. The
  enumeration that follows (the iterator behind the cookie, the buffer) is the parameter
  \<open>fill_buffer\<close>: no property stated here depends on it.\<close>

definition FuseReadDir :: "inode_call \<Rightarrow> FuseRamFs \<Rightarrow> fuse_ino_t \<Rightarrow> outcome" where
  "FuseReadDir fill_buffer fs ino =
     (if \<not> in_table fs ino then Done [reply_err ENOENT] fs
      else if deleted (slot fs ino) then Done [reply_err ENOENT] fs
      else if \<not> is_Directory (the (slot fs ino)) then Done [reply_err ENOTDIR] fs
      else fill_buffer ino fs)"

text \<open>\<^verbatim>\<open>FuseOpen\<close>, lines 467 to 498, and \<^verbatim>\<open>FuseRelease\<close>, lines 500 to 527.\<close>

definition FuseOpen :: "FuseRamFs \<Rightarrow> fuse_ino_t \<Rightarrow> outcome" where
  "FuseOpen fs ino =
     (if \<not> in_table fs ino then Done [reply_err ENOENT] fs
      else if deleted (slot fs ino) then Done [reply_err ENOENT] fs
      else if is_Directory (the (slot fs ino)) then Done [reply_err EISDIR] fs
      else Done [reply_open] fs)"

definition FuseRelease :: "FuseRamFs \<Rightarrow> fuse_ino_t \<Rightarrow> outcome" where
  "FuseRelease fs ino =
     (if \<not> in_table fs ino then Done [reply_err ENOENT] fs
      else if deleted (slot fs ino) then Done [reply_err ENOENT] fs
      else if is_Directory (the (slot fs ino)) then Done [reply_err EISDIR] fs
      else Done [reply_err ESUCCESS] fs)"

text \<open>\<^verbatim>\<open>FuseFsync\<close>, lines 529 to 538, \<^verbatim>\<open>FuseFsyncDir\<close>, lines 540 to 558, and
  \<^verbatim>\<open>FuseFlush\<close>, lines 861 to 874. They test the bound of the table only; flush has its
  read of the table commented out.\<close>

definition FuseFsync :: "FuseRamFs \<Rightarrow> fuse_ino_t \<Rightarrow> outcome" where
  "FuseFsync fs ino =
     (if \<not> in_table fs ino then Done [reply_err ENOENT] fs
      else Done [reply_err ESUCCESS] fs)"

definition FuseFsyncDir :: "FuseRamFs \<Rightarrow> fuse_ino_t \<Rightarrow> outcome" where
  "FuseFsyncDir fs ino =
     (if \<not> in_table fs ino then Done [reply_err ENOENT] fs
      else case as_Directory (slot fs ino) of
        None \<Rightarrow> Done [reply_err ENOTDIR] fs
      | Some _ \<Rightarrow> Done [reply_err ESUCCESS] fs)"

definition FuseFlush :: "FuseRamFs \<Rightarrow> fuse_ino_t \<Rightarrow> outcome" where
  "FuseFlush fs ino =
     (if \<not> in_table fs ino then Done [reply_err ENOENT] fs
      else Done [reply_err ESUCCESS] fs)"

text \<open>\<^verbatim>\<open>FuseWrite\<close>, lines 836 to 859 (\<open>buf_null\<close> says that \<^verbatim>\<open>buf == NULL\<close>), and
  \<^verbatim>\<open>FuseRead\<close>, lines 877 to 896.\<close>

definition FuseWrite :: "inode_call \<Rightarrow> FuseRamFs \<Rightarrow> fuse_ino_t \<Rightarrow> bool \<Rightarrow> outcome" where
  "FuseWrite WriteAndReply fs ino buf_null =
     (if buf_null then Done [reply_err EINVAL] fs
      else if \<not> in_table fs ino then Done [reply_err ENOENT] fs
      else if deleted (slot fs ino) then Done [reply_err ENOENT] fs
      else WriteAndReply ino fs)"

definition FuseRead :: "inode_call \<Rightarrow> FuseRamFs \<Rightarrow> fuse_ino_t \<Rightarrow> outcome" where
  "FuseRead ReadAndReply fs ino =
     (if \<not> in_table fs ino then Done [reply_err ENOENT] fs
      else if deleted (slot fs ino) then Done [reply_err ENOENT] fs
      else ReadAndReply ino fs)"

text \<open>\<^verbatim>\<open>FuseReadLink\<close>, lines 1067 to 1099; \<^verbatim>\<open>SymLink::Link\<close> gives the target that the
  constructor took.\<close>

definition FuseReadLink :: "FuseRamFs \<Rightarrow> fuse_ino_t \<Rightarrow> outcome" where
  "FuseReadLink fs ino =
     (if \<not> in_table fs ino then Done [reply_err ENOENT] fs
      else if deleted (slot fs ino) then Done [reply_err ENOENT] fs
      else case body (the (slot fs ino)) of
        SymLink l \<Rightarrow> Done [reply_readlink l] fs
      | _ \<Rightarrow> Done [reply_err EINVAL] fs)"

text \<open>\<^verbatim>\<open>FuseStatfs\<close>, lines 1101 to 1114: the inode number is not looked at.\<close>

definition FuseStatfs :: "FuseRamFs \<Rightarrow> fuse_ino_t \<Rightarrow> outcome" where
  "FuseStatfs fs ino = Done [reply_statfs (m_stbuf fs)] fs"

text \<open>\<^verbatim>\<open>FuseSetXAttr\<close>, \<^verbatim>\<open>FuseGetXAttr\<close>, \<^verbatim>\<open>FuseListXAttr\<close>, \<^verbatim>\<open>FuseRemoveXAttr\<close> and
  \<^verbatim>\<open>FuseAccess\<close>, lines 1117 to 1221.\<close>

definition FuseSetXAttr :: "inode_call \<Rightarrow> FuseRamFs \<Rightarrow> fuse_ino_t \<Rightarrow> outcome" where
  "FuseSetXAttr SetXAttrAndReply fs ino =
     (if \<not> in_table fs ino then Done [reply_err ENOENT] fs
      else if deleted (slot fs ino) then Done [reply_err ENOENT] fs
      else SetXAttrAndReply ino fs)"

definition FuseGetXAttr :: "inode_call \<Rightarrow> FuseRamFs \<Rightarrow> fuse_ino_t \<Rightarrow> outcome" where
  "FuseGetXAttr GetXAttrAndReply fs ino =
     (if \<not> in_table fs ino then Done [reply_err ENOENT] fs
      else if deleted (slot fs ino) then Done [reply_err ENOENT] fs
      else GetXAttrAndReply ino fs)"

definition FuseListXAttr :: "inode_call \<Rightarrow> FuseRamFs \<Rightarrow> fuse_ino_t \<Rightarrow> outcome" where
  "FuseListXAttr ListXAttrAndReply fs ino =
     (if \<not> in_table fs ino then Done [reply_err ENOENT] fs
      else if deleted (slot fs ino) then Done [reply_err ENOENT] fs
      else ListXAttrAndReply ino fs)"

definition FuseRemoveXAttr :: "inode_call \<Rightarrow> FuseRamFs \<Rightarrow> fuse_ino_t \<Rightarrow> outcome" where
  "FuseRemoveXAttr RemoveXAttrAndReply fs ino =
     (if \<not> in_table fs ino then Done [reply_err ENOENT] fs
      else if deleted (slot fs ino) then Done [reply_err ENOENT] fs
      else RemoveXAttrAndReply ino fs)"

definition FuseAccess :: "inode_call \<Rightarrow> FuseRamFs \<Rightarrow> fuse_ino_t \<Rightarrow> outcome" where
  "FuseAccess ReplyAccess fs ino =
     (if \<not> in_table fs ino then Done [reply_err ENOENT] fs
      else if deleted (slot fs ino) then Done [reply_err ENOENT] fs
      else ReplyAccess ino fs)"

text \<open>\<^verbatim>\<open>FuseGetLock\<close>, lines 1257 to 1269: past the bound test nothing is sent.\<close>

definition FuseGetLock :: "FuseRamFs \<Rightarrow> fuse_ino_t \<Rightarrow> outcome" where
  "FuseGetLock fs ino =
     (if \<not> in_table fs ino then Done [reply_err ENOENT] fs
      else Done [] fs)"

subsection \<open>Callbacks that change the name space\<close>

text \<open>Modelled from the spec: the constructors of the inode classes (file.cpp, directory.cpp,
  symlink.cpp are not among the sources). \<^verbatim>\<open>new File()\<close>, \<^verbatim>\<open>new Directory()\<close> and
  \<^verbatim>\<open>new SymLink(link)\<close> give an empty file, a directory without children (\<^verbatim>\<open>FuseInit\<close> and \<^verbatim>\<open>FuseMkdir\<close> add
  \<^verbatim>\<open>.\<close> and \<^verbatim>\<open>..\<close> themselves) and a symlink to \<open>link\<close>.\<close>

text \<open>\<^verbatim>\<open>FuseMknod\<close>, lines 560 to 626.\<close>

definition FuseMknod ::
  "FuseRamFs \<Rightarrow> fuse_ctx \<Rightarrow> fuse_ino_t \<Rightarrow> string \<Rightarrow> mode_t \<Rightarrow> outcome" where
  "FuseMknod fs ctx parent name mode =
     (if \<not> in_table fs parent then Done [reply_err ENOENT] fs
      else if deleted (slot fs parent) then Done [reply_err ENOENT] fs
      else if as_Directory (slot fs parent) = None then Done [reply_err EISDIR] fs
      else if \<not> S_ISDIR mode \<and> \<not> S_ISREG mode then Done [reply_err ENOENT] fs
      else
        (let n = (if S_ISDIR mode then Directory fmempty else File []);
             nlink = (if S_ISDIR mode then 2 else 1);
             fs0 = (if S_ISDIR mode then modify parent AddHardLink fs else fs)
         in case RegisterInode n mode nlink (gid ctx) (uid ctx) fs0 of
              Inl e \<Rightarrow> Fault [] e
            | Inr (ino, fs1) \<Rightarrow>
                (let fs2 = modify_held parent ino (AddChild name ino) fs1;
                     fs3 = modify ino ReplyEntry fs2
                 in Done [reply_entry (the (slot fs3 ino))] fs3)))"

text \<open>\<^verbatim>\<open>FuseMkdir\<close>, lines 630 to 673. The parent is not tested for deletion.\<close>

definition FuseMkdir ::
  "FuseRamFs \<Rightarrow> fuse_ctx \<Rightarrow> fuse_ino_t \<Rightarrow> string \<Rightarrow> mode_t \<Rightarrow> outcome" where
  "FuseMkdir fs ctx parent name mode =
     (if \<not> in_table fs parent then Done [reply_err ENOENT] fs
      else case as_Directory (slot fs parent) of
        None \<Rightarrow> Done [reply_err ENOTDIR] fs
      | Some ch \<Rightarrow>
          (if ChildInodeNumberWithName ch name \<noteq> INO_NOTFOUND then Done [reply_err EEXIST] fs
           else case RegisterInode (Directory fmempty) (mode OR S_IFDIR) 2 (gid ctx) (uid ctx) fs of
              Inl e \<Rightarrow> Fault [] e
            | Inr (ino, fs1) \<Rightarrow>
                (let fs2 = modify ino (AddChild ''.'' ino) fs1;
                     fs3 = modify ino (AddChild ''..'' parent) fs2;
                     fs4 = modify_held parent ino AddHardLink fs3;
                     fs5 = modify_held parent ino (AddChild name ino) fs4;
                     fs6 = modify ino ReplyEntry fs5
                 in Done [reply_entry (the (slot fs6 ino))] fs6)))"

text \<open>\<^verbatim>\<open>FuseUnlink\<close>, lines 675 to 722. The child is reached through \<^verbatim>\<open>Inodes[ino]\<close>
  without a test.\<close>

definition FuseUnlink :: "FuseRamFs \<Rightarrow> fuse_ino_t \<Rightarrow> string \<Rightarrow> outcome" where
  "FuseUnlink fs parent name =
     (if \<not> in_table fs parent then Done [reply_err ENOENT] fs
      else if deleted (slot fs parent) then Done [reply_err ENOENT] fs
      else case as_Directory (slot fs parent) of
        None \<Rightarrow> Done [reply_err ENOTDIR] fs
      | Some ch \<Rightarrow>
          (let ino = ChildInodeNumberWithName ch name in
           if ino = - 1 then Done [reply_err ENOENT] fs
           else
             (let fs1 = modify parent (RemoveChild name) fs in
              if \<not> in_table fs1 ino then Fault [] (OutOfBounds (unat ino))
              else case slot fs1 ino of
                None \<Rightarrow> Fault [] NullDeref
              | Some _ \<Rightarrow> Done [reply_err ESUCCESS] (modify ino RemoveHardLink fs1))))"

text \<open>The loop \<^verbatim>\<open>while (!dir_p->HasNoLinks()) dir_p->RemoveHardLink();\<close> of
  \<^verbatim>\<open>FuseRmdir\<close>.\<close>

function remove_all_links :: "inode \<Rightarrow> inode" where
  "remove_all_links d = (if HasNoLinks d then d else remove_all_links (RemoveHardLink d))"
  by pat_completeness auto
termination
  by (relation "measure (\<lambda>d. unat (st_nlink d))")
     (auto simp: HasNoLinks_def RemoveHardLink_def unat_minus_one unat_gt_0 [symmetric])

declare remove_all_links.simps [simp del]

text \<open>\<^verbatim>\<open>FuseRmdir\<close>, lines 724 to 798.\<close>

definition FuseRmdir :: "FuseRamFs \<Rightarrow> fuse_ino_t \<Rightarrow> string \<Rightarrow> outcome" where
  "FuseRmdir fs parent name =
     (if \<not> in_table fs parent then Done [reply_err ENOENT] fs
      else if deleted (slot fs parent) then Done [reply_err ENOENT] fs
      else case as_Directory (slot fs parent) of
        None \<Rightarrow> Done [reply_err ENOTDIR] fs
      | Some ch \<Rightarrow>
          (let ino = ChildInodeNumberWithName ch name in
           if ino = - 1 then Done [reply_err ENOENT] fs
           else if ino = parent then Done [reply_err EINVAL] fs
           else if \<not> in_table fs ino then Fault [] (OutOfBounds (unat ino))
           else if deleted (slot fs ino) then Done [reply_err ENOENT] fs
           else case as_Directory (slot fs ino) of
             None \<Rightarrow> Done [reply_err ENOTDIR] fs
           | Some children \<Rightarrow>
               (if fcard (fmdom children) > 2 then Done [reply_err ENOTEMPTY] fs
                else
                  (let fs1 = modify parent (RemoveChild name) fs;
                       fs2 = modify parent RemoveHardLink fs1;
                       fs3 = modify ino remove_all_links fs2
                   in Done [reply_err ESUCCESS] fs3))))"

text \<open>\<^verbatim>\<open>FuseForget\<close>, lines 800 to 834. The table is indexed without a bound test; a null
  slot returns without a reply. The blocks of the freed inode go to
  \<^verbatim>\<open>UpdateUsedInodes(-blocks_freed)\<close>.\<close>

definition FuseForget :: "FuseRamFs \<Rightarrow> fuse_ino_t \<Rightarrow> 64 word \<Rightarrow> outcome" where
  "FuseForget fs ino nlookup =
     (if \<not> in_table fs ino then Fault [] (OutOfBounds (unat ino))
      else case slot fs ino of
        None \<Rightarrow> Done [] fs
      | Some inode_p0 \<Rightarrow>
          (let inode_p = Forget inode_p0 nlookup;
               fs1 = modify ino (\<lambda>i. Forget i nlookup) fs
           in if Forgotten inode_p \<and> HasNoLinks inode_p then
                (let blocks_freed = UsedBlocks inode_p;
                     fs2 = fs1\<lparr>Inodes := (Inodes fs1)[unat ino := None]\<rparr>;
                     fs3 = UpdateUsedInodes (- blocks_freed) fs2
                 in Done [reply_none] (fs3\<lparr>DeletedInodes := DeletedInodes fs3 @ [ino]\<rparr>))
              else Done [reply_none] fs1))"

text \<open>\<^verbatim>\<open>FuseRename\<close>, lines 899 to 973. When the new name exists, the inode whose link is
  removed is \<^verbatim>\<open>Inodes[parent]\<close>; the old name is bound to inode 0.\<close>

definition FuseRename ::
  "FuseRamFs \<Rightarrow> fuse_ino_t \<Rightarrow> string \<Rightarrow> fuse_ino_t \<Rightarrow> string \<Rightarrow> outcome" where
  "FuseRename fs parent name newparent newname =
     (if \<not> in_table fs parent then Done [reply_err ENOENT] fs
      else if deleted (slot fs parent) then Done [reply_err ENOENT] fs
      else case as_Directory (slot fs parent) of
        None \<Rightarrow> Done [reply_err ENOTDIR] fs
      | Some ch \<Rightarrow>
          (let ino = ChildInodeNumberWithName ch name in
           if ino = - 1 then Done [reply_err ENOENT] fs
           else if \<not> in_table fs newparent then Done [reply_err ENOENT] fs
           else if deleted (slot fs newparent) then Done [reply_err ENOENT] fs
           else case as_Directory (slot fs newparent) of
             None \<Rightarrow> Done [reply_err ENOTDIR] fs
           | Some nch \<Rightarrow>
               (let existingIno = ChildInodeNumberWithName nch newname;
                    fs1 = (if existingIno \<noteq> INO_NOTFOUND then modify parent RemoveHardLink fs
                           else fs);
                    fs2 = modify newparent (UpdateChild newname ino) fs1;
                    fs3 = modify parent (UpdateChild name 0) fs2
                in Done [reply_err ESUCCESS] fs3)))"

text \<open>\<^verbatim>\<open>FuseLink\<close>, lines 975 to 1027. The branch for an existing name replies and does
  not return.\<close>

definition FuseLink :: "FuseRamFs \<Rightarrow> fuse_ino_t \<Rightarrow> fuse_ino_t \<Rightarrow> string \<Rightarrow> outcome" where
  "FuseLink fs ino newparent newname =
     (if \<not> in_table fs newparent then Done [reply_err ENOENT] fs
      else if deleted (slot fs newparent) then Done [reply_err ENOENT] fs
      else case as_Directory (slot fs newparent) of
        None \<Rightarrow> Done [reply_err ENOTDIR] fs
      | Some nch \<Rightarrow>
          (if \<not> in_table fs ino then Done [reply_err ENOENT] fs
           else if deleted (slot fs ino) then Done [reply_err ENOENT] fs
           else
             (let existingIno = ChildInodeNumberWithName nch newname;
                  rs = (if existingIno \<noteq> - 1 \<and> existingIno > 0 then [reply_err EEXIST] else []);
                  fs1 = modify newparent (AddChild newname ino) fs;
                  fs2 = modify ino AddHardLink fs1;
                  fs3 = modify ino ReplyEntry fs2
              in Done (rs @ [reply_entry (the (slot fs3 ino))]) fs3)))"

text \<open>\<^verbatim>\<open>FuseSymlink\<close>, lines 1029 to 1065.\<close>

definition FuseSymlink ::
  "FuseRamFs \<Rightarrow> fuse_ctx \<Rightarrow> string \<Rightarrow> fuse_ino_t \<Rightarrow> string \<Rightarrow> outcome" where
  "FuseSymlink fs ctx link parent name =
     (if \<not> in_table fs parent then Done [reply_err ENOENT] fs
      else if deleted (slot fs parent) then Done [reply_err ENOENT] fs
      else if as_Directory (slot fs parent) = None then Done [reply_err ENOTDIR] fs
      else case RegisterInode (SymLink link) (S_IFLNK OR 0x1ED) 1 (gid ctx) (uid ctx) fs of
        Inl e \<Rightarrow> Fault [] e
      | Inr (ino, fs1) \<Rightarrow>
          (let fs2 = modify_held parent ino (AddChild name ino) fs1;
               fs3 = modify ino ReplyEntry fs2
           in Done [reply_entry (the (slot fs3 ino))] fs3))"

text \<open>\<^verbatim>\<open>FuseCreate\<close>, lines 1223 to 1255.\<close>

definition FuseCreate ::
  "FuseRamFs \<Rightarrow> fuse_ctx \<Rightarrow> fuse_ino_t \<Rightarrow> string \<Rightarrow> mode_t \<Rightarrow> outcome" where
  "FuseCreate fs ctx parent name mode =
     (if \<not> in_table fs parent then Done [reply_err ENOENT] fs
      else if deleted (slot fs parent) then Done [reply_err ENOENT] fs
      else if as_Directory (slot fs parent) = None then Done [reply_err ENOTDIR] fs
      else case RegisterInode (File []) mode 1 (gid ctx) (uid ctx) fs of
        Inl e \<Rightarrow> Fault [] e
      | Inr (ino, fs1) \<Rightarrow>
          (let fs2 = modify_held parent ino (AddChild name ino) fs1;
               fs3 = modify ino ReplyCreate fs2
           in Done [reply_create (the (slot fs3 ino))] fs3))"

subsection \<open>Sample runs\<close>

text \<open>A file system of 1024 blocks and 1024 inodes after \<^verbatim>\<open>FuseInit\<close>, run by root: the
  special inode in slot 0, the root directory in slot 1.\<close>

definition fs_init :: FuseRamFs where
  "fs_init = projr (FuseInit 0 0 (FuseRamFs_new 1024 1024 0 255))"

definition user :: fuse_ctx where
  "user = \<lparr>uid = 1000, gid = 100\<rparr>"

text \<open>\<^verbatim>\<open>create(1, "a")\<close>, then \<^verbatim>\<open>create(1, "b")\<close>, both with mode \<^verbatim>\<open>S_IFREG | 0644\<close>: the
  files get the inode numbers 2 and 3.\<close>

definition fs_a :: FuseRamFs where
  "fs_a = state (FuseCreate fs_init user 1 ''a'' (S_IFREG OR 0x1A4))"

definition fs_ab :: FuseRamFs where
  "fs_ab = state (FuseCreate fs_a user 1 ''b'' (S_IFREG OR 0x1A4))"

text \<open>\<^verbatim>\<open>create(1, "a")\<close>, then \<^verbatim>\<open>unlink(1, "a")\<close>: inode 2 has no link left and is still
  looked up once.\<close>

definition fs_unlinked :: FuseRamFs where
  "fs_unlinked = state (FuseUnlink fs_a 1 ''a'')"

text \<open>\<^verbatim>\<open>mkdir(1, "d")\<close>, then \<^verbatim>\<open>create(d, "x")\<close>: the directory is inode 2, the file
  inode 3.\<close>

definition fs_d :: FuseRamFs where
  "fs_d = state (FuseMkdir fs_init user 1 ''d'' 0x1ED)"




text \<open>\<^verbatim>\<open>mkdir(1, "d")\<close>, then \<^verbatim>\<open>rmdir(1, "d")\<close>: the directory in slot 2 has no link left,
  is still looked up once and still binds \<^verbatim>\<open>.\<close> to itself.\<close>

definition fs_rmdir :: FuseRamFs where
  "fs_rmdir = state (FuseRmdir fs_d 1 ''d'')"

text \<open>The hard-link count and the lookup count in a slot of the table, and the children of
  the directory in a slot.\<close>

definition nlink_of :: "FuseRamFs \<Rightarrow> fuse_ino_t \<Rightarrow> nlink_t option" where
  "nlink_of fs ino = map_option st_nlink (slot fs ino)"

definition nlookup_of :: "FuseRamFs \<Rightarrow> fuse_ino_t \<Rightarrow> 64 word option" where
  "nlookup_of fs ino = map_option m_nlookup (slot fs ino)"

definition children_of :: "FuseRamFs \<Rightarrow> fuse_ino_t \<Rightarrow> (string, fuse_ino_t) fmap option" where
  "children_of fs ino = as_Directory (slot fs ino)"

definition mode_of :: "FuseRamFs \<Rightarrow> fuse_ino_t \<Rightarrow> mode_t option" where
  "mode_of fs ino = map_option st_mode (slot fs ino)"

definition body_of :: "FuseRamFs \<Rightarrow> fuse_ino_t \<Rightarrow> node option" where
  "body_of fs ino = map_option body (slot fs ino)"

text \<open>The inode number that a name is bound to in the directory in a slot.\<close>

definition entry_of :: "FuseRamFs \<Rightarrow> fuse_ino_t \<Rightarrow> string \<Rightarrow> fuse_ino_t option" where
  "entry_of fs parent name =
     (case children_of fs parent of None \<Rightarrow> None | Some ch \<Rightarrow> fmlookup ch name)"

text \<open>\<^verbatim>\<open>create(1, "a")\<close>, \<^verbatim>\<open>unlink(1, "a")\<close>, \<^verbatim>\<open>forget(2, 1)\<close>: slot 2 is empty and
  queued.\<close>

definition fs_forgotten :: FuseRamFs where
  "fs_forgotten = state (FuseForget fs_unlinked 2 1)"

text \<open>A stand-in for the methods that are parameters, where a run needs one.\<close>

definition some_call :: inode_call where
  "some_call ino fs = Done [reply_other] fs"

section \<open>Properties\<close>

subsection \<open>The table under \<open>modify\<close>\<close>

lemma in_table_modify [simp]: "in_table (modify j f fs) ino = in_table fs ino"
  by (simp add: in_table_def modify_def)

lemma slot_modify:
  "in_table fs j \<Longrightarrow>
     slot (modify j f fs) ino = (if ino = j then map_option f (slot fs j) else slot fs ino)"
  by (auto simp: in_table_def modify_def slot_def nth_list_update word_unat_eq_iff)

lemma slot_modify_other: "ino \<noteq> j \<Longrightarrow> slot (modify j f fs) ino = slot fs ino"
  by (simp add: modify_def slot_def word_unat_eq_iff)

lemma as_Directory_RemoveHardLink [simp]:
  "as_Directory (map_option RemoveHardLink p) = as_Directory p"
  by (cases p) (simp_all add: as_Directory_def RemoveHardLink_def)

lemma as_Directory_UpdateChild [simp]:
  "as_Directory (map_option (UpdateChild n v) p) = map_option (fmupd n v) (as_Directory p)"
  by (cases p) (auto simp: as_Directory_def UpdateChild_def split: node.splits)

lemma deleted_Some: "slot fs ino = Some i \<Longrightarrow> deleted (slot fs ino) = HasNoLinks i"
  by (simp add: deleted_def)


subsection \<open>Rename\<close>

text \<open>
  C1. Claim: a successful rename onto a name that is bound in the new parent decrements the
  hard-link count of the inode that name was bound to; after create a, create b, rename a
  over b, the link count of the original b is zero.

  The code removes the link from \<^verbatim>\<open>Inodes[parent]\<close>, not from \<^verbatim>\<open>Inodes[existingIno]\<close>. In
  the run of the claim, \<open>b\<close> is inode 3 with one link and the root has three; the rename
  succeeds, inode 3 keeps its link and the root is left with two.
\<close>

theorem rename_over_removes_link_of_parent:
  "entry_of fs_ab 1 ''b'' = Some 3
   \<and> nlink_of fs_ab 3 = Some 1
   \<and> nlink_of fs_ab 1 = Some 3
   \<and> replies (FuseRename fs_ab 1 ''a'' 1 ''b'') = [reply_err ESUCCESS]
   \<and> entry_of (state (FuseRename fs_ab 1 ''a'' 1 ''b'')) 1 ''b'' = Some 2
   \<and> nlink_of (state (FuseRename fs_ab 1 ''a'' 1 ''b'')) 3 = Some 1
   \<and> nlink_of (state (FuseRename fs_ab 1 ''a'' 1 ''b'')) 1 = Some 2"
  by code_simp

text \<open>
  C5. Claim: after a successful rename the old name is no longer present in the old parent:
  a lookup of it replies ENOENT and no entry for it remains in the children of the parent.

  The code binds the old name to inode 0 (\<^verbatim>\<open>UpdateChild(name, 0)\<close>, "mark the old name as
  unused") and does not remove it. In the run below the entry for \<open>a\<close> is still there after
  the rename, bound to 0.
\<close>

theorem rename_keeps_old_entry_counterexample:
  "replies (FuseRename fs_ab 1 ''a'' 1 ''b'') = [reply_err ESUCCESS]
   \<and> entry_of (state (FuseRename fs_ab 1 ''a'' 1 ''b'')) 1 ''a'' = Some 0
   \<and> entry_of (state (FuseRename fs_ab 1 ''a'' 1 ''b'')) 1 ''a'' \<noteq> None"
  by code_simp

text \<open>
  C5, as amended: after a successful rename the old name is bound to inode 0 in the old
  parent; when slot 0 is empty or holds an inode without links (as the special inode that
  init puts there), a lookup of the old name replies ENOENT and changes nothing.
\<close>

theorem rename_binds_old_name_to_zero:
  assumes "FuseRename fs parent name newparent newname = Done [reply_err ESUCCESS] fs'"
  shows "entry_of fs' parent name = Some 0
       \<and> (deleted (slot fs 0) \<longrightarrow> FuseLookup fs' parent name = Done [reply_err ENOENT] fs')"
proof -
  from assms obtain ch nch where
    p: "in_table fs parent" "\<not> deleted (slot fs parent)" "as_Directory (slot fs parent) = Some ch"
    and np: "in_table fs newparent" "\<not> deleted (slot fs newparent)"
      "as_Directory (slot fs newparent) = Some nch"
    and fs': "fs' = modify parent (UpdateChild name 0)
               (modify newparent (UpdateChild newname (ChildInodeNumberWithName ch name))
                 (if ChildInodeNumberWithName nch newname \<noteq> INO_NOTFOUND
                  then modify parent RemoveHardLink fs else fs))"
    by (auto simp: FuseRename_def Let_def split: if_splits option.splits)
  have ch': "\<exists>ch'. children_of fs' parent = Some ch' \<and> fmlookup ch' name = Some 0"
    using p np by (auto simp: fs' children_of_def slot_modify)
  then have entry: "entry_of fs' parent name = Some 0"
    by (auto simp: entry_of_def)
  have "FuseLookup fs' parent name = Done [reply_err ENOENT] fs'" if d: "deleted (slot fs 0)"
  proof -
    have "parent \<noteq> 0" "newparent \<noteq> 0"
      using d p(2) np(2) by auto
    then have "slot fs' 0 = slot fs 0"
      by (simp add: fs' slot_modify_other)
    moreover have "in_table fs 0"
      using p(1) by (auto simp: in_table_def)
    then have "in_table fs' 0"
      by (simp add: fs')
    moreover have "in_table fs' parent"
      using p(1) by (simp add: fs')
    ultimately show ?thesis
      using ch' d
      by (auto simp: FuseLookup_def children_of_def ChildInodeNumberWithName_def INO_NOTFOUND_def)
  qed
  with entry show ?thesis by blast
qed

theorem rename_binds_old_name_to_zero_witness:
  "FuseRename fs_ab 1 ''a'' 1 ''c'' = Done [reply_err ESUCCESS] (state (FuseRename fs_ab 1 ''a'' 1 ''c''))
   \<and> deleted (slot fs_ab 0)
   \<and> entry_of (state (FuseRename fs_ab 1 ''a'' 1 ''c'')) 1 ''a'' = Some 0
   \<and> FuseLookup (state (FuseRename fs_ab 1 ''a'' 1 ''c'')) 1 ''a''
       = Done [reply_err ENOENT] (state (FuseRename fs_ab 1 ''a'' 1 ''c''))"
proof -
  have h: "FuseRename fs_ab 1 ''a'' 1 ''c''
             = Done [reply_err ESUCCESS] (state (FuseRename fs_ab 1 ''a'' 1 ''c''))"
    by code_simp
  have d: "deleted (slot fs_ab 0)"
    by code_simp
  show ?thesis
    using h d rename_binds_old_name_to_zero [OF h] by simp
qed

subsection \<open>Link\<close>

text \<open>
  C2. Claim: link onto a name that is bound to a live inode in the new parent replies EEXIST
  and changes nothing: no entry is added or rebound, and the hard-link count of the target
  is unchanged.

  The branch that replies EEXIST does not return. With \<open>b\<close> bound to the live inode 3,
  \<^verbatim>\<open>link(2, 1, "b")\<close> replies EEXIST, goes on to add the link, and replies a second time
  with the entry: inode 2 has two links afterwards and one more lookup.
\<close>

theorem link_existing_name_goes_on:
  "entry_of fs_ab 1 ''b'' = Some 3
   \<and> \<not> deleted (slot fs_ab 3)
   \<and> nlink_of fs_ab 2 = Some 1
   \<and> nlookup_of fs_ab 2 = Some 1
   \<and> replies (FuseLink fs_ab 2 1 ''b'')
       = [reply_err EEXIST, reply_entry (the (slot (state (FuseLink fs_ab 2 1 ''b'')) 2))]
   \<and> nlink_of (state (FuseLink fs_ab 2 1 ''b'')) 2 = Some 2
   \<and> nlookup_of (state (FuseLink fs_ab 2 1 ''b'')) 2 = Some 2
   \<and> state (FuseLink fs_ab 2 1 ''b'') \<noteq> fs_ab"
  by code_simp

subsection \<open>Inodes without links\<close>

text \<open>
  C3. Claim: for an inode whose hard-link count is zero and that is still in the table, every
  callback other than forget reports ENOENT, flush, fsync, open, release and getlk included.

  After create a, unlink a, inode 2 is in the table with no link and one lookup; flush and
  fsync reply success for it, and getlk replies nothing.
\<close>

theorem flush_of_unlinked_inode_counterexample:
  "in_table fs_unlinked 2
   \<and> nlink_of fs_unlinked 2 = Some 0
   \<and> nlookup_of fs_unlinked 2 = Some 1
   \<and> FuseFlush fs_unlinked 2 = Done [reply_err ESUCCESS] fs_unlinked
   \<and> FuseFsync fs_unlinked 2 = Done [reply_err ESUCCESS] fs_unlinked
   \<and> FuseGetLock fs_unlinked 2 = Done [] fs_unlinked"
  by code_simp

text \<open>
  C3, as amended: for an inode in the table whose hard-link count is zero, the callbacks that
  test \<^verbatim>\<open>HasNoLinks\<close> reply ENOENT, once, and leave the state as it is: getattr, setattr,
  opendir, releasedir, readdir, open, release, write (of a buffer that is not null), read,
  readlink, the four xattr callbacks and access on the inode; mknod, unlink, rmdir, rename,
  symlink and create with the inode as parent; link with the inode as new parent, or as
  target under a live directory; rename into it from an existing name of a live directory;
  lookup of a name that is bound to it. An inode with a link is found: getattr replies its
  attributes. Flush and fsync test the bound of the table only and reply success; getlk
  replies nothing.
\<close>

theorem zero_links_not_found:
  assumes "in_table fs ino" and "slot fs ino = Some i"
  shows
   "(HasNoLinks i \<longrightarrow>
       FuseGetAttr fs ino = Done [reply_err ENOENT] fs
     \<and> FuseSetAttr m_setattr fs ino = Done [reply_err ENOENT] fs
     \<and> FuseOpenDir fs ino = Done [reply_err ENOENT] fs
     \<and> FuseReleaseDir fs ino = Done [reply_err ENOENT] fs
     \<and> FuseReadDir m_readdir fs ino = Done [reply_err ENOENT] fs
     \<and> FuseOpen fs ino = Done [reply_err ENOENT] fs
     \<and> FuseRelease fs ino = Done [reply_err ENOENT] fs
     \<and> FuseWrite m_write fs ino False = Done [reply_err ENOENT] fs
     \<and> FuseRead m_read fs ino = Done [reply_err ENOENT] fs
     \<and> FuseReadLink fs ino = Done [reply_err ENOENT] fs
     \<and> FuseSetXAttr m_setx fs ino = Done [reply_err ENOENT] fs
     \<and> FuseGetXAttr m_getx fs ino = Done [reply_err ENOENT] fs
     \<and> FuseListXAttr m_listx fs ino = Done [reply_err ENOENT] fs
     \<and> FuseRemoveXAttr m_rmx fs ino = Done [reply_err ENOENT] fs
     \<and> FuseAccess m_access fs ino = Done [reply_err ENOENT] fs
     \<and> FuseMknod fs ctx ino name mode = Done [reply_err ENOENT] fs
     \<and> FuseUnlink fs ino name = Done [reply_err ENOENT] fs
     \<and> FuseRmdir fs ino name = Done [reply_err ENOENT] fs
     \<and> FuseRename fs ino name newparent newname = Done [reply_err ENOENT] fs
     \<and> FuseSymlink fs ctx link ino name = Done [reply_err ENOENT] fs
     \<and> FuseCreate fs ctx ino name mode = Done [reply_err ENOENT] fs
     \<and> FuseLink fs target ino newname = Done [reply_err ENOENT] fs
     \<and> (in_table fs dirA \<and> \<not> deleted (slot fs dirA) \<and> children_of fs dirA \<noteq> None \<longrightarrow>
          FuseLink fs ino dirA nameA = Done [reply_err ENOENT] fs)
     \<and> (in_table fs dirB \<and> \<not> deleted (slot fs dirB) \<and> entry_of fs dirB nameB = Some src
            \<and> src \<noteq> INO_NOTFOUND \<longrightarrow>
          FuseRename fs dirB nameB ino newnameB = Done [reply_err ENOENT] fs)
     \<and> (in_table fs dirC \<and> entry_of fs dirC nameC = Some ino \<and> ino \<noteq> INO_NOTFOUND \<longrightarrow>
          FuseLookup fs dirC nameC = Done [reply_err ENOENT] fs))
  \<and> (\<not> HasNoLinks i \<longrightarrow> FuseGetAttr fs ino = Done [reply_attr i] fs)
  \<and> FuseFlush fs ino = Done [reply_err ESUCCESS] fs
  \<and> FuseFsync fs ino = Done [reply_err ESUCCESS] fs
  \<and> FuseGetLock fs ino = Done [] fs"
  using assms deleted_Some [OF assms(2)]
  by (auto simp: FuseGetAttr_def FuseSetAttr_def FuseOpenDir_def FuseReleaseDir_def
      FuseReadDir_def FuseOpen_def FuseRelease_def FuseWrite_def FuseRead_def FuseReadLink_def
      FuseSetXAttr_def FuseGetXAttr_def FuseListXAttr_def FuseRemoveXAttr_def FuseAccess_def
      FuseMknod_def FuseUnlink_def FuseRmdir_def FuseRename_def FuseSymlink_def FuseCreate_def
      FuseLink_def FuseLookup_def FuseFlush_def FuseFsync_def FuseGetLock_def
      children_of_def entry_of_def ChildInodeNumberWithName_def INO_NOTFOUND_def
      split: option.splits)

theorem zero_links_not_found_witness:
  "in_table fs_rmdir 2
   \<and> slot fs_rmdir 2 = Some (the (slot fs_rmdir 2))
   \<and> HasNoLinks (the (slot fs_rmdir 2))
   \<and> nlookup_of fs_rmdir 2 = Some 1
   \<and> FuseGetAttr fs_rmdir 2 = Done [reply_err ENOENT] fs_rmdir
   \<and> FuseSetAttr some_call fs_rmdir 2 = Done [reply_err ENOENT] fs_rmdir
   \<and> FuseOpenDir fs_rmdir 2 = Done [reply_err ENOENT] fs_rmdir
   \<and> FuseReadDir some_call fs_rmdir 2 = Done [reply_err ENOENT] fs_rmdir
   \<and> FuseMknod fs_rmdir user 2 ''f'' (S_IFREG OR 0x1A4) = Done [reply_err ENOENT] fs_rmdir
   \<and> in_table fs_rmdir 1 \<and> \<not> deleted (slot fs_rmdir 1) \<and> children_of fs_rmdir 1 \<noteq> None
   \<and> FuseLink fs_rmdir 2 1 ''e'' = Done [reply_err ENOENT] fs_rmdir
   \<and> entry_of fs_rmdir 1 ''.'' = Some 1 \<and> 1 \<noteq> INO_NOTFOUND
   \<and> FuseRename fs_rmdir 1 ''.'' 2 ''e'' = Done [reply_err ENOENT] fs_rmdir
   \<and> in_table fs_rmdir 2 \<and> entry_of fs_rmdir 2 ''.'' = Some 2 \<and> 2 \<noteq> INO_NOTFOUND
   \<and> FuseLookup fs_rmdir 2 ''.'' = Done [reply_err ENOENT] fs_rmdir
   \<and> slot fs_rmdir 1 = Some (the (slot fs_rmdir 1))
   \<and> \<not> HasNoLinks (the (slot fs_rmdir 1))
   \<and> FuseGetAttr fs_rmdir 1 = Done [reply_attr (the (slot fs_rmdir 1))] fs_rmdir
   \<and> FuseFlush fs_rmdir 2 = Done [reply_err ESUCCESS] fs_rmdir
   \<and> FuseGetLock fs_rmdir 2 = Done [] fs_rmdir"
proof -
  have a: "in_table fs_rmdir 2" by code_simp
  have b: "slot fs_rmdir 2 = Some (the (slot fs_rmdir 2))" by code_simp
  have c: "HasNoLinks (the (slot fs_rmdir 2))" by code_simp
  have d: "nlookup_of fs_rmdir 2 = Some 1" by code_simp
  have e: "in_table fs_rmdir 1 \<and> \<not> deleted (slot fs_rmdir 1) \<and> children_of fs_rmdir 1 \<noteq> None"
    by code_simp
  have f: "entry_of fs_rmdir 1 ''.'' = Some 1 \<and> (1 :: fuse_ino_t) \<noteq> INO_NOTFOUND" by code_simp
  have g: "entry_of fs_rmdir 2 ''.'' = Some 2 \<and> (2 :: fuse_ino_t) \<noteq> INO_NOTFOUND" by code_simp
  have a1: "in_table fs_rmdir 1" using e by simp
  have b1: "slot fs_rmdir 1 = Some (the (slot fs_rmdir 1))" by code_simp
  have c1: "\<not> HasNoLinks (the (slot fs_rmdir 1))" by code_simp
  show ?thesis
    using a b c d e f g b1 c1
      zero_links_not_found [OF a b, where m_setattr = some_call and m_readdir = some_call
        and ctx = user and name = "''f''" and mode = "S_IFREG OR 0x1A4"
        and dirA = 1 and nameA = "''e''" and dirB = 1 and nameB = "''.''" and src = 1
        and newnameB = "''e''" and dirC = 2 and nameC = "''.''"]
      zero_links_not_found [OF a1 b1]
    by simp
qed

subsection \<open>Forget\<close>

text \<open>What forget does to an inode that stays, and to the counters when it frees one: the
  blocks of the freed inode are added to the free inodes, and the free blocks stay.\<close>

lemma forget_release_counters:
  assumes "in_table fs ino" and "slot fs ino = Some i"
    and "m_nlookup i = n" and "st_nlink i = 0"
  shows "\<exists>fs'. FuseForget fs ino n = Done [reply_none] fs'
          \<and> slot fs' ino = None
          \<and> DeletedInodes fs' = DeletedInodes fs @ [ino]
          \<and> f_ffree (m_stbuf fs') = f_ffree (m_stbuf fs) + UsedBlocks i
          \<and> f_bfree (m_stbuf fs') = f_bfree (m_stbuf fs)"
  using assms
  by (simp add: FuseForget_def Let_def Forget_def Forgotten_def HasNoLinks_def UsedBlocks_def
      UpdateUsedInodes_def modify_def slot_def in_table_def split: node.splits)

lemma forget_keeps_counted_inode:
  assumes "in_table fs ino" and "slot fs ino = Some i"
    and "m_nlookup i \<noteq> n \<or> st_nlink i \<noteq> 0"
  shows "FuseForget fs ino n = Done [reply_none] (modify ino (\<lambda>i. Forget i n) fs)
       \<and> nlookup_of (modify ino (\<lambda>i. Forget i n) fs) ino = Some (m_nlookup i - n)"
  using assms
  by (auto simp: FuseForget_def Let_def Forget_def Forgotten_def HasNoLinks_def
      nlookup_of_def slot_modify)

text \<open>
  C4. Claim: forget lowers the lookup count by exactly \<open>n\<close>; when it reaches zero and the
  hard-link count is zero as well, the slot becomes empty, the number is pushed onto
  DeletedInodes, the free-block counter rises by the UsedBlocks of the inode and the
  free-inode counter rises by one.

  The code passes \<^verbatim>\<open>-blocks_freed\<close> to \<^verbatim>\<open>UpdateUsedInodes\<close>. After create a, unlink a,
  inode 2 uses no block, has no link and one lookup; \<^verbatim>\<open>forget(2, 1)\<close> empties the slot
  and queues the number, and the free-inode counter stays at 1021.
\<close>

theorem forget_credits_no_inode:
  "in_table fs_unlinked 2
   \<and> nlink_of fs_unlinked 2 = Some 0
   \<and> nlookup_of fs_unlinked 2 = Some 1
   \<and> map_option UsedBlocks (slot fs_unlinked 2) = Some 0
   \<and> replies (FuseForget fs_unlinked 2 1) = [reply_none]
   \<and> slot (state (FuseForget fs_unlinked 2 1)) 2 = None
   \<and> DeletedInodes (state (FuseForget fs_unlinked 2 1)) = [2]
   \<and> f_ffree (m_stbuf fs_unlinked) = 1021
   \<and> f_ffree (m_stbuf (state (FuseForget fs_unlinked 2 1))) = 1021
   \<and> f_bfree (m_stbuf (state (FuseForget fs_unlinked 2 1))) = f_bfree (m_stbuf fs_unlinked)"
  by code_simp

subsection \<open>Getattr and setattr past the end of the table\<close>

lemma getattr_past_end:
  "\<not> in_table fs ino \<Longrightarrow>
     FuseGetAttr fs ino = Fault [reply_err ENOENT] (OutOfBounds (unat ino))
   \<and> FuseSetAttr m fs ino = Fault [reply_err ENOENT] (OutOfBounds (unat ino))"
  by (simp add: FuseGetAttr_def FuseSetAttr_def)

text \<open>
  C6. Claim: for an inode number at or past the length of the table, getattr and setattr
  reply ENOENT once and do nothing else; the table is not indexed at that number.

  The branch replies and does not return. After init the table has two slots; getattr and
  setattr of inode 2 reply ENOENT and then read \<^verbatim>\<open>Inodes[2]\<close>, past the end. Opendir, which
  returns in that branch, replies ENOENT and is done.
\<close>

theorem getattr_past_end_indexes_table:
  "length (Inodes fs_init) = 2
   \<and> FuseGetAttr fs_init 2 = Fault [reply_err ENOENT] (OutOfBounds 2)
   \<and> FuseSetAttr some_call fs_init 2 = Fault [reply_err ENOENT] (OutOfBounds 2)
   \<and> FuseOpenDir fs_init 2 = Done [reply_err ENOENT] fs_init"
  by code_simp

subsection \<open>Rmdir\<close>




subsection \<open>Registration\<close>

text \<open>
  C8. For every registration of a new inode: when DeletedInodes is not empty, the number
  handed out is the head of the queue, which is popped, and the new inode is in that slot;
  otherwise a slot is appended and the number is the previous length of the table. In both
  cases the inode has the given mode, link count and owner and a lookup count of zero.

  A queued number is a slot of the table (\<open>unat q < length (Inodes fs)\<close>), as forget only
  queues numbers of slots.
\<close>

theorem RegisterInode_slot:
  "(DeletedInodes fs = [] \<longrightarrow>
      (\<exists>fs'. RegisterInode n mode nlink g u fs = Inr (word_of_nat (length (Inodes fs)), fs')
         \<and> Inodes fs' =
             Inodes fs @ [Some (Initialize n (word_of_nat (length (Inodes fs))) mode nlink g u)]
         \<and> DeletedInodes fs' = []))
   \<and> (DeletedInodes fs = q # qs \<and> unat q < length (Inodes fs) \<longrightarrow>
      (\<exists>fs'. RegisterInode n mode nlink g u fs = Inr (q, fs')
         \<and> Inodes fs' = (Inodes fs)[unat q := Some (Initialize n q mode nlink g u)]
         \<and> slot fs' q = Some (Initialize n q mode nlink g u)
         \<and> DeletedInodes fs' = qs))
   \<and> st_mode (Initialize n ino mode nlink g u) = mode
   \<and> st_nlink (Initialize n ino mode nlink g u) = nlink
   \<and> st_uid (Initialize n ino mode nlink g u) = u
   \<and> st_gid (Initialize n ino mode nlink g u) = g
   \<and> m_nlookup (Initialize n ino mode nlink g u) = 0"
  by (simp add: RegisterInode_def Let_def UpdateUsedBlocks_def UpdateUsedInodes_def
      Initialize_def slot_def)

theorem RegisterInode_slot_witness:
  "DeletedInodes fs_init = []
   \<and> (\<exists>fs'. RegisterInode (File []) 0x81A4 1 100 1000 fs_init = Inr (2, fs')
        \<and> Inodes fs' = Inodes fs_init @ [Some (Initialize (File []) 2 0x81A4 1 100 1000)]
        \<and> DeletedInodes fs' = [])
   \<and> DeletedInodes fs_forgotten = [2] \<and> unat (2 :: fuse_ino_t) < length (Inodes fs_forgotten)
   \<and> (\<exists>fs'. RegisterInode (File []) 0x81A4 1 100 1000 fs_forgotten = Inr (2, fs')
        \<and> slot fs' 2 = Some (Initialize (File []) 2 0x81A4 1 100 1000)
        \<and> DeletedInodes fs' = [])
   \<and> st_mode (Initialize (File []) 2 0x81A4 1 100 1000) = 0x81A4
   \<and> m_nlookup (Initialize (File []) 2 0x81A4 1 100 1000) = 0"
proof -
  have a: "DeletedInodes fs_init = []" by code_simp
  have l: "length (Inodes fs_init) = 2" by code_simp
  have b: "DeletedInodes fs_forgotten = [2]" by code_simp
  have c: "unat (2 :: fuse_ino_t) < length (Inodes fs_forgotten)" by code_simp
  show ?thesis
    using a l b c
      RegisterInode_slot [of fs_init "File []" "0x81A4" 1 100 1000 2 "[]" 2]
      RegisterInode_slot [of fs_forgotten "File []" "0x81A4" 1 100 1000 2 "[]" 2]
    by auto
qed




subsection \<open>Symlink\<close>

text \<open>
  C9. Claim: the inode that a successful symlink creates has mode \<^verbatim>\<open>0777 | S_IFLNK\<close>, one
  hard link and the uid and gid of the caller.

  The code registers the symlink with \<^verbatim>\<open>S_IFLNK | 0755\<close>. After init,
  \<^verbatim>\<open>symlink("/tmp/x", 1, "s")\<close> creates inode 2 with that mode.
\<close>

theorem symlink_mode_counterexample:
  "replies (FuseSymlink fs_init user ''/tmp/x'' 1 ''s'')
     = [reply_entry (the (slot (state (FuseSymlink fs_init user ''/tmp/x'' 1 ''s'')) 2))]
   \<and> entry_of (state (FuseSymlink fs_init user ''/tmp/x'' 1 ''s'')) 1 ''s'' = Some 2
   \<and> body_of (state (FuseSymlink fs_init user ''/tmp/x'' 1 ''s'')) 2 = Some (SymLink ''/tmp/x'')
   \<and> mode_of (state (FuseSymlink fs_init user ''/tmp/x'' 1 ''s'')) 2 = Some (S_IFLNK OR 0x1ED)
   \<and> mode_of (state (FuseSymlink fs_init user ''/tmp/x'' 1 ''s'')) 2 \<noteq> Some (S_IFLNK OR 0x1FF)"
  by code_simp

text \<open>
  C9, as amended: the inode that a successful symlink creates has mode \<^verbatim>\<open>0755 | S_IFLNK\<close>,
  one hard link and the uid and gid of the caller. The symlink succeeds when the parent is
  a live directory of the table (whose length fits \<^verbatim>\<open>size_t\<close>, and whose queued number, if
  there is one, is a slot); the new inode is the one the entry reply carries, and it is in
  the table under its number.
\<close>

theorem symlink_inode:
  assumes "in_table fs parent" and "\<not> deleted (slot fs parent)"
    and "children_of fs parent \<noteq> None"
    and "length (Inodes fs) < 2 ^ 64"
    and "DeletedInodes fs = [] \<or> unat (hd (DeletedInodes fs)) < length (Inodes fs)"
  shows "\<exists>i fs'. FuseSymlink fs ctx link parent name = Done [reply_entry i] fs'
           \<and> slot fs' (st_ino i) = Some i
           \<and> body i = SymLink link
           \<and> st_mode i = S_IFLNK OR 0x1ED
           \<and> st_nlink i = 1
           \<and> st_uid i = uid ctx \<and> st_gid i = gid ctx"
proof (cases "DeletedInodes fs")
  case Nil
  have u: "unat (word_of_nat (length (Inodes fs)) :: 64 word) = length (Inodes fs)"
    using assms(4) by (simp add: unat_of_nat)
  show ?thesis
    using assms(1-3) Nil u
    by (simp add: FuseSymlink_def RegisterInode_def Let_def children_of_def modify_held_def
        UpdateUsedBlocks_def UpdateUsedInodes_def modify_def slot_def in_table_def
        Initialize_def ReplyEntry_def nth_append word_unat_eq_iff)
next
  case (Cons q qs)
  then have "unat q < length (Inodes fs)"
    using assms(5) by simp
  then show ?thesis
    using assms(1-3) Cons
    by (simp add: FuseSymlink_def RegisterInode_def Let_def children_of_def modify_held_def
        UpdateUsedBlocks_def UpdateUsedInodes_def modify_def slot_def in_table_def
        Initialize_def ReplyEntry_def word_unat_eq_iff)
qed

theorem symlink_inode_witness:
  "in_table fs_init 1 \<and> \<not> deleted (slot fs_init 1) \<and> children_of fs_init 1 \<noteq> None
   \<and> length (Inodes fs_init) < 2 ^ 64
   \<and> DeletedInodes fs_init = []
   \<and> (\<exists>i fs'. FuseSymlink fs_init user ''/tmp/x'' 1 ''s'' = Done [reply_entry i] fs'
         \<and> slot fs' (st_ino i) = Some i
         \<and> body i = SymLink ''/tmp/x''
         \<and> st_mode i = S_IFLNK OR 0x1ED
         \<and> st_nlink i = 1
         \<and> st_uid i = uid user \<and> st_gid i = gid user)"
proof -
  have a: "in_table fs_init 1" and b: "\<not> deleted (slot fs_init 1)"
    and c: "children_of fs_init 1 \<noteq> None" and e: "DeletedInodes fs_init = []"
    by code_simp+
  have l: "length (Inodes fs_init) = 2" by code_simp
  have d: "length (Inodes fs_init) < 2 ^ 64" by (simp add: l)
  have f: "DeletedInodes fs_init = [] \<or> unat (hd (DeletedInodes fs_init)) < length (Inodes fs_init)"
    using e by simp
  show ?thesis
    using a b c d e symlink_inode [OF a b c d f, of user "''/tmp/x''" "''s''"] by simp
qed

end
